theory Spec2Isabelle
  imports Complex_Main
begin

section \<open>Strings, paths and Python sets\<close>

text \<open>
  Python strings are modelled as \<open>string\<close>; \<open>str.upper\<close> and \<open>str.lower\<close> are modelled
  on ASCII letters (torrent hashes are hexadecimal digits), other characters are kept.
\<close>

definition upper_char :: "char \<Rightarrow> char" where
  "upper_char c =
     (case map_of (zip ''abcdefghijklmnopqrstuvwxyz'' ''ABCDEFGHIJKLMNOPQRSTUVWXYZ'') c of
        Some d \<Rightarrow> d | None \<Rightarrow> c)"

definition lower_char :: "char \<Rightarrow> char" where
  "lower_char c =
     (case map_of (zip ''ABCDEFGHIJKLMNOPQRSTUVWXYZ'' ''abcdefghijklmnopqrstuvwxyz'') c of
        Some d \<Rightarrow> d | None \<Rightarrow> c)"

definition upper :: "string \<Rightarrow> string" where
  "upper s = map upper_char s"

definition lower :: "string \<Rightarrow> string" where
  "lower s = map lower_char s"

text \<open>
  A Python \<open>set\<close> is modelled as the list of its elements without repetition;
  \<open>set.add\<close> keeps the list when the element is present. No property below depends
  on the order of iteration. \<open>set.union\<close> builds a fresh set.
\<close>

definition set_add :: "'a \<Rightarrow> 'a list \<Rightarrow> 'a list" where
  "set_add x xs = (if x \<in> set xs then xs else xs @ [x])"

definition set_union :: "'a list \<Rightarrow> 'a list \<Rightarrow> 'a list" where
  "set_union xs ys = fold set_add ys (remdups xs)"

text \<open>
  \<open>pathlib.Path\<close> on a POSIX system: a path is split at \<open>/\<close>, empty components and
  \<open>.\<close> components are dropped. \<open>Path.name\<close> is the last component, \<open>Path.parents\<close>
  are the proper prefixes (nearest first) and \<open>Path.suffix\<close> is the part of the name
  from its last dot, when that dot is neither the first nor the last character.
\<close>

fun split_sep :: "string \<Rightarrow> string \<Rightarrow> string list" where
  "split_sep acc [] = [rev acc]"
| "split_sep acc (c # cs) =
     (if c = CHR ''/'' then rev acc # split_sep [] cs else split_sep (c # acc) cs)"

definition path_parts :: "string \<Rightarrow> string list" where
  "path_parts p = filter (\<lambda>c. c \<noteq> [] \<and> c \<noteq> ''.'') (split_sep [] p)"

definition path_name :: "string \<Rightarrow> string" where
  "path_name p = (case rev (path_parts p) of [] \<Rightarrow> [] | c # _ \<Rightarrow> c)"

definition parent_names :: "string \<Rightarrow> string list" where
  "parent_names p = rev (butlast (path_parts p))"

definition path_suffix :: "string \<Rightarrow> string" where
  "path_suffix p =
     (let name = path_name p;
          k = length (takeWhile (\<lambda>c. c \<noteq> CHR ''.'') (rev name));
          i = length name - k - 1
      in if CHR ''.'' \<in> set name \<and> 0 < i \<and> 0 < k then drop i name else [])"

text \<open>
  A \<open>pathlib.Path\<close> object. A path never equals a string, so a test such as
  \<open>torrent.hash in self.sent_to_scan\<close>, of a string against a set of paths, is false.
\<close>

datatype path = Path string

fun path_str :: "path \<Rightarrow> string" where
  "path_str (Path p) = p"

section \<open>Torrents as the download client reports them\<close>

datatype TorrentStates =
    ERROR | MISSING_FILES | UPLOADING | PAUSED_UPLOAD | QUEUED_UPLOAD | STALLED_UPLOAD
  | CHECKING_UPLOAD | FORCED_UPLOAD | ALLOCATING | DOWNLOADING | METADATA_DOWNLOAD
  | PAUSED_DOWNLOAD | QUEUED_DOWNLOAD | FORCED_DOWNLOAD | STALLED_DOWNLOAD
  | CHECKING_DOWNLOAD | CHECKING_RESUME_DATA | MOVING | UNKNOWN

record torrent_file =
  file_id :: int
  file_name :: string
  file_priority :: int

text \<open>
  The fields of a torrent that the reconciler reads. \<open>progress\<close> and \<open>availability\<close>
  are Python floats, read only through comparisons; they are modelled as reals.
\<close>

record torrent =
  hash :: string
  name :: string
  category :: string
  state_enum :: TorrentStates
  progress :: real
  availability :: real
  added_on :: int
  completion_on :: int
  last_activity :: int
  eta :: int
  seeding_time :: int
  amount_left :: int
  content_path :: string
  files :: "torrent_file list"

definition is_ignored_state :: "torrent \<Rightarrow> bool" where
  "is_ignored_state t =
     (state_enum t \<in> set [FORCED_DOWNLOAD, FORCED_UPLOAD, CHECKING_UPLOAD, CHECKING_DOWNLOAD,
        CHECKING_RESUME_DATA, ALLOCATING, MOVING])"

definition is_uploading_state :: "torrent \<Rightarrow> bool" where
  "is_uploading_state t = (state_enum t \<in> set [UPLOADING, STALLED_UPLOAD, QUEUED_UPLOAD])"

definition is_complete_state :: "torrent \<Rightarrow> bool" where
  "is_complete_state t =
     (state_enum t \<in> set [UPLOADING, STALLED_UPLOAD, PAUSED_UPLOAD, QUEUED_UPLOAD])"

text \<open>
  The property \<open>TorrentStates.is_downloading\<close> belongs to the client library, not to
  this repository. The classifier takes it as a parameter; \<open>lib_is_downloading\<close> is the
  library's table, used where a scenario is evaluated.
\<close>

definition lib_is_downloading :: "TorrentStates \<Rightarrow> bool" where
  "lib_is_downloading st =
     (st \<in> set [DOWNLOADING, METADATA_DOWNLOAD, STALLED_DOWNLOAD, CHECKING_DOWNLOAD,
        PAUSED_DOWNLOAD, QUEUED_DOWNLOAD, FORCED_DOWNLOAD])"

section \<open>The reconciler and its collaborators\<close>

text \<open>
  Calls to the download client, to the media manager, to the file system and to the
  local search store are recorded, in order, in a trace of events. A call is taken to
  return normally unless the source handles its failure itself. Of the logging calls
  only the error records are traced.
\<close>

datatype arr_kind = Sonarr | Radarr

datatype command =
    RssSync
  | RefreshMonitoredDownloads
  | EpisodeSearch "int list"
  | MoviesSearch "int list"
  | DownloadedEpisodesScan string string string

datatype event =
    TorrentsPause "string list"
  | TorrentsResume "string list"
  | TorrentsRecheck "string list"
  | TorrentsDelete "string list" bool
  | TorrentsFilePriority string "int list" int
  | PostCommand command
  | ClientPostCommand command
  | DeleteFromQueue int bool bool
  | GetEpisodeByEpisodeId int
  | GetMovieByMovieId int
  | Unlink path
  | Rmdir path
  | QueueInsert int bool
  | Sleep nat
  | LogError string

datatype error =
    KeyError
  | NoConnectionrException
  | DelayLoopException int string
  | EnvironmentError
  | NoOptionError
  | SkipException

text \<open>
  The constants of the module \<open>config\<close> are parameters, as is the library's
  \<open>is_downloading\<close>.
\<close>

record globals =
  FAILED_CATEGORY :: string
  RECHECK_CATEGORY :: string
  NO_INTERNET_SLEEP_TIMER :: int
  is_downloading :: "TorrentStates \<Rightarrow> bool"

text \<open>
  The attributes of an \<open>Arr\<close> object that the modelled methods read or write, under
  their names in the source. The compiled regular expressions are the functions
  \<open>folder_exclusion_regex_re\<close> (its \<open>match\<close>) and \<open>file_name_exclusion_regex_re\<close> (its
  \<open>search\<close>). \<open>requeue_cache\<close> holds lists of episode ids for a Sonarr manager and one
  movie id for a Radarr manager: the model keeps a map for each shape and reads the one
  of the manager's type. \<open>name_cache\<close>, \<open>qbit_cache\<close> and \<open>should_delay_torrent_scan\<close>
  are the attributes \<open>name_cache\<close>, \<open>cache\<close> and \<open>should_delay_torrent_scan\<close> of
  \<open>manager.qbit_manager\<close>; \<open>others_sent_to_scan_hashes\<close> gives
  \<open>manager.managed_objects[c].sent_to_scan_hashes\<close> for the categories of the other
  reconcilers.

  Modelled from the spec: \<open>ExpiringSet\<close> (module \<open>utils\<close>) is a set keyed by time to
  live; \<open>timed_ignore_cache\<close> and \<open>timed_skip\<close> are the lists of their live members.
\<close>

record arr =
  self_category :: string
  arr_type :: arr_kind
  import_mode :: string
  refresh_downloads_timer :: int
  rss_sync_timer :: int
  file_extension_allowlist :: "string list"
  folder_exclusion_regex_re :: "string \<Rightarrow> bool"
  file_name_exclusion_regex_re :: "string \<Rightarrow> bool"
  auto_delete :: bool
  ignore_torrents_younger_than :: int
  maximum_eta :: int
  maximum_deletable_percentage :: real
  search_missing :: bool
  search_in_reverse :: bool
  search_command_limit :: int
  search_current_year :: int
  delta :: int
  search_setup_completed :: bool
  rss_sync_timer_last_checked :: "real option"
  refresh_downloads_timer_last_checked :: "real option"
  cache :: "string \<rightharpoonup> int"
  requeue_cache_sonarr :: "int \<rightharpoonup> int list"
  requeue_cache_radarr :: "int \<rightharpoonup> int"
  sent_to_scan :: "path list"
  sent_to_scan_hashes :: "string list"
  files_probed :: "path list"
  import_torrents :: "torrent list"
  change_priority :: "(string \<times> int list) list"
  recheck :: "string list"
  pause :: "string list"
  skip_blacklist :: "string list"
  delete :: "string list"
  resume :: "string list"
  needs_cleanup :: bool
  timed_ignore_cache :: "string list"
  timed_skip :: "string list"
  name_cache :: "string \<rightharpoonup> string"
  qbit_cache :: "string \<rightharpoonup> string"
  should_delay_torrent_scan :: bool
  others_sent_to_scan_hashes :: "string \<rightharpoonup> string list"
  queue_table :: "(int \<times> bool) list"
  events :: "event list"

definition emit :: "event \<Rightarrow> arr \<Rightarrow> arr" where
  "emit e s = s\<lparr>events := events s @ [e]\<rparr>"

section \<open>The classifier of \<open>process_torrents\<close>\<close>

text \<open>
  File-level filtering (the \<open>for file in torrent.files\<close> loop). \<open>rm\<close> is
  \<open>_remove_files\<close>, \<open>tot\<close> the running count \<open>total\<close>. A file of priority 0 lowers the
  count and continues with the next file. For every other file the test
  \<open>total == 0\<close> and the recording of the list stand inside the loop body, after the
  three exclusion tests, as in the source.
\<close>

definition marked :: "arr \<Rightarrow> torrent_file \<Rightarrow> bool" where
  "marked s f =
     (if path_suffix (file_name f) \<notin> set (file_extension_allowlist s) then True
      else if list_ex (\<lambda>p. folder_exclusion_regex_re s (lower p)) (parent_names (file_name f))
        then True
      else file_name_exclusion_regex_re s (path_name (file_name f)))"

fun parse_files :: "string \<Rightarrow> torrent_file list \<Rightarrow> int list \<Rightarrow> int \<Rightarrow> arr \<Rightarrow> arr" where
  "parse_files h [] rm tot s = s"
| "parse_files h (f # fs) rm tot s =
     (if file_priority f = 0 then parse_files h fs rm (tot - 1) s
      else
        let rm' = (if marked s f then set_add (file_id f) rm else rm);
            tot' = (if marked s f then tot - 1 else tot);
            s' = (if tot' = 0 then s\<lparr>delete := set_add h (delete s)\<rparr>
                  else if rm' \<noteq> [] \<and> map_of (change_priority s) h = None
                    then s\<lparr>change_priority := change_priority s @ [(h, rm')]\<rparr>
                  else s)
        in parse_files h fs rm' tot' s')"

definition target_sent_to_scan_hashes :: "arr \<Rightarrow> string \<Rightarrow> string list option" where
  "target_sent_to_scan_hashes s c =
     (if c = self_category s then Some (sent_to_scan_hashes s)
      else others_sent_to_scan_hashes s c)"

definition note_torrent :: "globals \<Rightarrow> torrent \<Rightarrow> arr \<Rightarrow> arr" where
  "note_torrent g t s =
     (let s1 = (if category t \<noteq> RECHECK_CATEGORY g
                then s\<lparr>qbit_cache := (qbit_cache s)(hash t \<mapsto> category t)\<rparr> else s)
      in s1\<lparr>name_cache := (name_cache s1)(hash t \<mapsto> name t)\<rparr>)"

text \<open>
  The body of the loop over the torrents: the chain of \<open>if\<close>/\<open>elif\<close> tests in the
  order of the source. The lookup \<open>managed_objects[torrent.category]\<close> raises
  \<open>KeyError\<close> for a category that no reconciler owns; the state reached so far is kept.
\<close>

definition classify :: "globals \<Rightarrow> real \<Rightarrow> torrent \<Rightarrow> arr \<Rightarrow> error option \<times> arr" where
  "classify g time_now t s0 =
     (let s = note_torrent g t s0; h = hash t;
          old = (real_of_int (added_on t) < time_now - real_of_int (ignore_torrents_younger_than s))
      in
      if category t = FAILED_CATEGORY g then (None, s\<lparr>delete := set_add h (delete s)\<rparr>)
      else if category t = RECHECK_CATEGORY g then (None, s\<lparr>recheck := set_add h (recheck s)\<rparr>)
      else if is_ignored_state t then (None, s)
      else if h \<in> set (timed_ignore_cache s) \<or> h \<in> set (timed_skip s) then (None, s)
      else if maximum_deletable_percentage s \<le> progress t \<and> \<not> is_complete_state t then
        (if real_of_int (last_activity t) < time_now - real_of_int (maximum_eta s)
         then (None, s\<lparr>delete := set_add h (delete s)\<rparr>)
         else (None, s))
      else
        (case target_sent_to_scan_hashes s (category t) of
           None \<Rightarrow> (Some KeyError, s)
         | Some sent \<Rightarrow>
            if h \<in> set sent then (None, s)
            else if state_enum t = ERROR then (None, s\<lparr>recheck := set_add h (recheck s)\<rparr>)
            else if 0 < added_on t \<and> amount_left t = 0 \<and> is_complete_state t
                    \<and> content_path t \<noteq> [] \<and> real_of_int (completion_on t) < time_now - 30
              then (None, s\<lparr>pause := set_add h (pause s),
                             import_torrents := import_torrents s @ [t]\<rparr>)
            else if state_enum t = MISSING_FILES
              then (None, s\<lparr>skip_blacklist := set_add h (skip_blacklist s)\<rparr>)
            else if state_enum t = PAUSED_DOWNLOAD \<and> progress t < 1
              then (None, s\<lparr>resume := set_add h (resume s)\<rparr>)
            else if state_enum t \<in> set [METADATA_DOWNLOAD, STALLED_DOWNLOAD] then
              (let s1 = s\<lparr>timed_skip := set_add h (timed_skip s)\<rparr>
               in if old then (None, s1\<lparr>delete := set_add h (delete s1)\<rparr>) else (None, s1))
            else if is_uploading_state t \<and> 1 < seeding_time t \<and> amount_left t = 0
                    \<and> 0 < added_on t \<and> content_path t \<noteq> []
              then (None, s\<lparr>pause := set_add h (pause s)\<rparr>)
            else if state_enum t \<noteq> PAUSED_DOWNLOAD \<and> is_downloading g (state_enum t)
                    \<and> old \<and> maximum_eta s < eta t
              then (None, s\<lparr>delete := set_add h (delete s)\<rparr>)
            else if is_downloading g (state_enum t) then
              (if old \<and> availability t < 1
               then (None, s\<lparr>delete := set_add h (delete s)\<rparr>)
               else (None, parse_files h (files t) [] (int (length (files t))) s))
            else (None, s)))"

text \<open>The loop over the snapshot stops at the first exception.\<close>

fun classify_all :: "globals \<Rightarrow> real \<Rightarrow> torrent list \<Rightarrow> arr \<Rightarrow> error option \<times> arr" where
  "classify_all g time_now [] s = (None, s)"
| "classify_all g time_now (t # ts) s =
     (case classify g time_now t s of
        (Some e, s') \<Rightarrow> (Some e, s')
      | (None, s') \<Rightarrow> classify_all g time_now ts s')"

section \<open>Flushing the intents\<close>

text \<open>
  The methods \<open>_process_paused\<close>, \<open>_process_errored\<close>, \<open>_process_file_priority\<close>,
  \<open>_process_imports\<close>, \<open>_process_failed\<close> and \<open>_process_resume\<close> (their names without
  the leading underscore). What the file system and the module \<open>utils\<close> answer is
  given by an environment.
\<close>

datatype probe_result = ProbeOutput | ProbeEmpty | ProbeError

record env =
  validate_and_return_torrent_file :: "string \<Rightarrow> path"
  path_exists :: "path \<Rightarrow> bool"
  is_dir :: "path \<Rightarrow> bool"
  ffprobe_available :: bool
  probe :: "path \<Rightarrow> probe_result"
  cleanup_listing :: "path list"
  prune_listing :: "path list"
  dir_is_empty :: "path \<Rightarrow> bool"
  folder_empty_after :: bool

definition process_paused :: "arr \<Rightarrow> arr" where
  "process_paused s =
     (if pause s \<noteq> [] then
        (emit (TorrentsPause (pause s)) (s\<lparr>needs_cleanup := True\<rparr>))\<lparr>pause := []\<rparr>
      else s)"

definition process_errored :: "arr \<Rightarrow> arr" where
  "process_errored s =
     (if recheck s \<noteq> [] then
        (let s1 = emit (TorrentsRecheck (recheck s)) (s\<lparr>needs_cleanup := True\<rparr>);
             s2 = s1\<lparr>timed_ignore_cache := fold set_add (recheck s) (timed_ignore_cache s1)\<rparr>
         in s2\<lparr>recheck := []\<rparr>)
      else s)"

definition process_resume :: "arr \<Rightarrow> arr" where
  "process_resume s =
     (if resume s \<noteq> [] then
        (let s1 = emit (TorrentsResume (resume s)) (s\<lparr>needs_cleanup := True\<rparr>);
             s2 = s1\<lparr>timed_ignore_cache := fold set_add (resume s) (timed_ignore_cache s1)\<rparr>
         in s2\<lparr>resume := []\<rparr>)
      else s)"

text \<open>
  \<open>change_priority\<close> is a dictionary: an association list with one entry for a key.
  The loop runs over a copy of it and deletes each key from the dictionary itself.
\<close>

definition truthy_name :: "string option \<Rightarrow> bool" where
  "truthy_name n = (case n of None \<Rightarrow> False | Some x \<Rightarrow> x \<noteq> [])"

definition file_priority_step :: "string \<times> int list \<Rightarrow> arr \<Rightarrow> arr" where
  "file_priority_step e s =
     (let s1 = s\<lparr>needs_cleanup := True\<rparr>;
          s2 = (if truthy_name (name_cache s1 (fst e))
                then emit (TorrentsFilePriority (fst e) (snd e) 0) s1
                else emit (LogError (''Torrent does not exist? '' @ fst e)) s1)
      in s2\<lparr>change_priority := filter (\<lambda>kv. fst kv \<noteq> fst e) (change_priority s2)\<rparr>)"

definition process_file_priority :: "arr \<Rightarrow> arr" where
  "process_file_priority s = fold file_priority_step (change_priority s) s"

definition import_step :: "env \<Rightarrow> torrent \<Rightarrow> arr \<Rightarrow> arr" where
  "import_step E t s =
     (let p = validate_and_return_torrent_file E (content_path t) in
      if \<not> path_exists E p
        then s\<lparr>skip_blacklist := set_add (upper (hash t)) (skip_blacklist s)\<rparr>
      else if p \<in> set (sent_to_scan s) then s
      else
        (let s1 = s\<lparr>sent_to_scan_hashes := set_add (hash t) (sent_to_scan_hashes s)\<rparr>;
             s2 = emit (PostCommand (DownloadedEpisodesScan (path_str p) (upper (hash t))
                         (import_mode s1))) s1
         in s2\<lparr>sent_to_scan := set_add p (sent_to_scan s2)\<rparr>))"

definition process_imports :: "env \<Rightarrow> arr \<Rightarrow> arr" where
  "process_imports E s =
     (if import_torrents s \<noteq> [] then
        (fold (import_step E) (import_torrents s) (s\<lparr>needs_cleanup := True\<rparr>))
          \<lparr>import_torrents := []\<rparr>
      else s)"

definition process_entries :: "arr \<Rightarrow> string list \<Rightarrow> (int \<times> string) list" where
  "process_entries s hashes =
     List.map_filter
       (\<lambda>h. case cache s (upper h) of None \<Rightarrow> None | Some i \<Rightarrow> Some (i, upper h)) hashes"

text \<open>
  \<open>delete_from_queue\<close> is called inside \<open>contextlib.suppress(Exception)\<close>: the call is
  made once, and its failure is ignored. The details fetched from the manager are used
  for the log only.
\<close>

definition process_failed_individual :: "string \<Rightarrow> int \<Rightarrow> string list \<Rightarrow> arr \<Rightarrow> arr" where
  "process_failed_individual hash' entry skip s =
     (let s1 = (if hash' \<notin> set skip then emit (DeleteFromQueue entry True True) s
                else emit (DeleteFromQueue entry True False) s)
      in case arr_type s1 of
           Sonarr \<Rightarrow>
             (case requeue_cache_sonarr s1 entry of
                None \<Rightarrow> s1
              | Some [] \<Rightarrow> s1
              | Some (i # ids) \<Rightarrow>
                  emit (PostCommand (EpisodeSearch (i # ids))) (emit (GetEpisodeByEpisodeId i) s1))
         | Radarr \<Rightarrow>
             (case requeue_cache_radarr s1 entry of
                None \<Rightarrow> s1
              | Some m \<Rightarrow>
                  if m = 0 then s1
                  else emit (PostCommand (MoviesSearch [m])) (emit (GetMovieByMovieId m) s1)))"

definition process_failed :: "arr \<Rightarrow> arr" where
  "process_failed s =
     (let to_delete_all = set_union (delete s) (skip_blacklist s);
          skip = remdups (map upper (skip_blacklist s));
          s' = (if to_delete_all \<noteq> [] then
                  (let s1 = s\<lparr>needs_cleanup := True\<rparr>;
                       s2 = fold (\<lambda>p. process_failed_individual (snd p) (fst p) skip)
                              (process_entries s1 to_delete_all) s1;
                       s3 = emit (TorrentsDelete to_delete_all True) s2
                   in s3\<lparr>name_cache := (\<lambda>h. if h \<in> set to_delete_all then None else name_cache s3 h),
                         qbit_cache := (\<lambda>h. if h \<in> set to_delete_all then None else qbit_cache s3 h)\<rparr>)
                else s)
      in s'\<lparr>skip_blacklist := [], delete := []\<rparr>)"

text \<open>
  An \<open>Arr\<close> object as \<open>__init__\<close> leaves it for a section that sets no optional key
  (the fallbacks of the source), with an empty allowlist and regular expressions that
  match nothing.
\<close>

definition new_arr :: "string \<Rightarrow> arr_kind \<Rightarrow> arr" where
  "new_arr c k =
     \<lparr> self_category = c, arr_type = k, import_mode = ''Move'',
       refresh_downloads_timer = 1, rss_sync_timer = 15,
       file_extension_allowlist = [],
       folder_exclusion_regex_re = (\<lambda>_. False),
       file_name_exclusion_regex_re = (\<lambda>_. False),
       auto_delete = False, ignore_torrents_younger_than = 600, maximum_eta = 86400,
       maximum_deletable_percentage = 0.95,
       search_missing = False, search_in_reverse = False, search_command_limit = 5,
       search_current_year = 0, delta = - 1, search_setup_completed = False,
       rss_sync_timer_last_checked = Some 0, refresh_downloads_timer_last_checked = Some 0,
       cache = Map.empty, requeue_cache_sonarr = Map.empty, requeue_cache_radarr = Map.empty,
       sent_to_scan = [], sent_to_scan_hashes = [], files_probed = [], import_torrents = [],
       change_priority = [], recheck = [], pause = [], skip_blacklist = [], delete = [],
       resume = [], needs_cleanup = False, timed_ignore_cache = [], timed_skip = [],
       name_cache = Map.empty, qbit_cache = Map.empty, should_delay_torrent_scan = False,
       others_sent_to_scan_hashes = Map.empty, queue_table = [], events = [] \<rparr>"

section \<open>Folder cleanup\<close>

text \<open>
  \<open>file_is_probeable\<close> answers and remembers the files that probed well.
\<close>

definition file_is_probeable :: "env \<Rightarrow> path \<Rightarrow> arr \<Rightarrow> bool \<times> arr" where
  "file_is_probeable E file s =
     (if \<not> ffprobe_available E then (True, s)
      else if file \<in> set (files_probed s) then (True, s)
      else if is_dir E file then (False, s)
      else case probe E file of
             ProbeOutput \<Rightarrow> (True, s\<lparr>files_probed := set_add file (files_probed s)\<rparr>)
           | ProbeEmpty \<Rightarrow> (False, s)
           | ProbeError \<Rightarrow> (False, s))"

text \<open>
  The loop of \<open>_remove_empty_folders\<close> over the completed folder; \<open>new\<close> is
  \<open>new_sent_to_scan\<close>.
\<close>

fun prune_dirs :: "env \<Rightarrow> path list \<Rightarrow> path list \<Rightarrow> arr \<Rightarrow> path list \<times> arr" where
  "prune_dirs E [] new s = (new, s)"
| "prune_dirs E (p # ps) new s =
     (if is_dir E p \<and> dir_is_empty E p then
        (let s1 = emit (Rmdir p) s in
         if p \<in> set (sent_to_scan s1)
         then prune_dirs E ps new (s1\<lparr>sent_to_scan := removeAll p (sent_to_scan s1)\<rparr>)
         else prune_dirs E ps (set_add p new) s1)
      else prune_dirs E ps new s)"

definition remove_empty_folders :: "env \<Rightarrow> arr \<Rightarrow> arr" where
  "remove_empty_folders E s =
     (case prune_dirs E (prune_listing E) [] s of
        (new, s1) \<Rightarrow>
          (let s2 = s1\<lparr>sent_to_scan := new\<rparr> in
           if folder_empty_after E then s2\<lparr>sent_to_scan := [], sent_to_scan_hashes := []\<rparr>
           else s2))"

definition cleanup_file :: "env \<Rightarrow> path \<Rightarrow> arr \<Rightarrow> arr" where
  "cleanup_file E file s =
     (if path_name (path_str file) \<in> set [''desktop.ini'', ''.DS_Store''] then s
      else if is_dir E file then s
      else if path_suffix (path_str file) \<in> set (file_extension_allowlist s) then
        (case file_is_probeable E file s of
           (True, s1) \<Rightarrow> s1
         | (False, s1) \<Rightarrow> emit (Unlink file) s1)
      else emit (Unlink file) s)"

definition folder_cleanup :: "env \<Rightarrow> arr \<Rightarrow> arr" where
  "folder_cleanup E s =
     (if \<not> auto_delete s then s
      else if \<not> needs_cleanup s then s
      else (remove_empty_folders E (fold (cleanup_file E) (cleanup_listing E) s))
             \<lparr>needs_cleanup := False\<rparr>)"

section \<open>One tick of the reconciler\<close>

text \<open>The method \<open>process\<close>, with the calls it makes, in its order.\<close>

definition process :: "env \<Rightarrow> arr \<Rightarrow> arr" where
  "process E s =
     folder_cleanup E
       (process_failed
         (process_imports E
           (process_file_priority
             (process_errored
               (process_paused s)))))"

text \<open>
  \<open>api_calls\<close> and \<open>refresh_download_queue\<close>. Times of day are seconds; an entry of the
  manager's queue is read through the keys the source reads.
\<close>

record queue_entry =
  qe_id :: int
  qe_downloadId :: "string option"
  qe_episode_id :: "int option"
  qe_movieId :: "int option"

record tick =
  has_internet :: bool
  is_alive :: bool
  now :: real
  manager_queue :: "queue_entry list"
  time_now :: real
  torrents :: "torrent list"

definition api_calls :: "tick \<Rightarrow> arr \<Rightarrow> error option \<times> arr" where
  "api_calls T s =
     (if \<not> is_alive T then (Some NoConnectionrException, s)
      else
        (let s1 = (case rss_sync_timer_last_checked s of
                     None \<Rightarrow> s
                   | Some l \<Rightarrow>
                       if l < now T - 60 * real_of_int (rss_sync_timer s)
                       then (emit (PostCommand RssSync) s)
                              \<lparr>rss_sync_timer_last_checked := Some (now T)\<rparr>
                       else s);
             s2 = (case refresh_downloads_timer_last_checked s1 of
                     None \<Rightarrow> s1
                   | Some l \<Rightarrow>
                       if l < now T - 60 * real_of_int (refresh_downloads_timer s1)
                       then (emit (PostCommand RefreshMonitoredDownloads) s1)
                              \<lparr>refresh_downloads_timer_last_checked := Some (now T)\<rparr>
                       else s1)
         in (None, s2)))"

definition refresh_download_queue :: "tick \<Rightarrow> arr \<Rightarrow> arr" where
  "refresh_download_queue T s =
     s\<lparr>cache :=
          fold (\<lambda>e m. case qe_downloadId e of
                         None \<Rightarrow> m
                       | Some d \<Rightarrow> if d = [] then m else m(d \<mapsto> qe_id e))
            (manager_queue T) Map.empty,
        requeue_cache_sonarr :=
          (case arr_type s of
             Sonarr \<Rightarrow>
               fold (\<lambda>e m. case qe_episode_id e of
                              None \<Rightarrow> m
                            | Some i \<Rightarrow> m(qe_id e \<mapsto> (case m (qe_id e) of
                                                       None \<Rightarrow> [i] | Some l \<Rightarrow> l @ [i])))
                 (manager_queue T) Map.empty
           | Radarr \<Rightarrow> requeue_cache_sonarr s),
        requeue_cache_radarr :=
          (case arr_type s of
             Sonarr \<Rightarrow> requeue_cache_radarr s
           | Radarr \<Rightarrow>
               fold (\<lambda>e m. case qe_movieId e of
                              None \<Rightarrow> m
                            | Some i \<Rightarrow> if i = 0 then m else m(qe_id e \<mapsto> i))
                 (manager_queue T) Map.empty)\<rparr>"

text \<open>
  \<open>process_torrents\<close>. A \<open>DelayLoopException\<close> leaves the method; a
  \<open>NoConnectionrException\<close> and any other exception raised inside the \<open>try\<close> are
  logged there, and the method returns without calling \<open>process\<close>.
\<close>

definition process_torrents :: "globals \<Rightarrow> env \<Rightarrow> tick \<Rightarrow> arr \<Rightarrow> error option \<times> arr" where
  "process_torrents g E T s =
     (if \<not> has_internet T
        then (Some (DelayLoopException (NO_INTERNET_SLEEP_TIMER g) ''internet''),
              s\<lparr>should_delay_torrent_scan := True\<rparr>)
      else if should_delay_torrent_scan s
        then (Some (DelayLoopException (NO_INTERNET_SLEEP_TIMER g) ''delay''), s)
      else
        (case api_calls T s of
           (Some e, s1) \<Rightarrow> (None, emit (LogError ''NoConnectionrException'') s1)
         | (None, s1) \<Rightarrow>
             (case classify_all g (time_now T) (torrents T) (refresh_download_queue T s1) of
                (Some e, s2) \<Rightarrow> (None, emit (LogError ''KeyError'') s2)
              | (None, s2) \<Rightarrow> (None, process E s2))))"

section \<open>The search scheduler\<close>


text \<open>
  \<open>register_search_mode\<close>; \<open>db_exists\<close> tells whether the manager's catalog file
  exists. Opening the databases leaves no trace in the model.
\<close>

definition register_search_mode :: "bool \<Rightarrow> arr \<Rightarrow> arr" where
  "register_search_mode db_exists s =
     (if search_setup_completed s then s
      else if \<not> search_missing s then s\<lparr>search_setup_completed := True\<rparr>
      else if \<not> db_exists then s\<lparr>search_missing := False\<rparr>
      else s\<lparr>search_setup_completed := True\<rparr>)"

text \<open>
  \<open>arr_db_query_commands_count\<close>; \<open>active\<close> is the number of search commands that
  the manager's catalog shows as not ended.
\<close>

definition arr_db_query_commands_count :: "int \<Rightarrow> arr \<Rightarrow> int" where
  "arr_db_query_commands_count active s = (if \<not> search_missing s then 0 else active)"

text \<open>
  Modelled from the spec: the pending-search table of the local store (module
  \<open>tables\<close>) holds rows of an entry id and a flag \<open>completed\<close>; \<open>queue_table\<close> is the list
  of its rows.

  \<open>maybe_do_search\<close> returns \<open>None\<close>, \<open>True\<close> or \<open>False\<close>.
\<close>

definition queued :: "int \<Rightarrow> arr \<Rightarrow> (int \<times> bool) list" where
  "queued entry_id s = filter (\<lambda>row. snd row = False \<and> fst row = entry_id) (queue_table s)"

definition queue_insert :: "int \<Rightarrow> arr \<Rightarrow> arr" where
  "queue_insert entry_id s =
     emit (QueueInsert entry_id False) (s\<lparr>queue_table := queue_table s @ [(entry_id, False)]\<rparr>)"

definition maybe_do_search :: "int \<Rightarrow> int \<Rightarrow> arr \<Rightarrow> bool option \<times> arr" where
  "maybe_do_search active entry_id s =
     (if \<not> search_missing s then (None, s)
      else case arr_type s of
        Sonarr \<Rightarrow>
          if queued entry_id s \<noteq> [] then (Some True, s)
          else
            (let active_commands = arr_db_query_commands_count active s in
             if search_command_limit s \<le> active_commands then (Some False, s)
             else (Some True,
                   emit (ClientPostCommand (EpisodeSearch [entry_id])) (queue_insert entry_id s)))
      | Radarr \<Rightarrow>
          (let active_commands = arr_db_query_commands_count active s in
           if queued entry_id s \<noteq> [] then (Some True, s)
           else if search_command_limit s \<le> active_commands then (Some False, s)
           else (Some True,
                 emit (ClientPostCommand (MoviesSearch [entry_id])) (queue_insert entry_id s))))"

text \<open>
  \<open>db_update\<close> and \<open>_update_current_year\<close>. The rows of the manager's catalog for the
  year, as pairs of an entry id and a file id, are given; a row with a file marks the
  pending searches of its entry as completed. The table of files of the local store is
  not modelled: \<open>no_files\<close> tells whether \<open>db_get_files\<close> yields nothing after the update.
\<close>

definition db_update_single_series :: "int \<times> int \<Rightarrow> arr \<Rightarrow> arr" where
  "db_update_single_series row s =
     (if \<not> search_missing s then s
      else
        (let s1 = (if snd row \<noteq> 0
                   then s\<lparr>queue_table :=
                          map (\<lambda>q. if fst q = fst row then (fst q, True) else q) (queue_table s)\<rparr>
                   else s)
         in case arr_type s1 of
              Sonarr \<Rightarrow> emit (GetEpisodeByEpisodeId (fst row)) s1
            | Radarr \<Rightarrow> s1))"

definition update_current_year :: "bool \<Rightarrow> arr \<Rightarrow> arr" where
  "update_current_year no_files s =
     (if \<not> search_missing s then s
      else if no_files then s\<lparr>search_current_year := search_current_year s + delta s\<rparr>
      else s)"

definition db_update :: "(int \<times> int) list \<Rightarrow> bool \<Rightarrow> arr \<Rightarrow> arr" where
  "db_update catalog_rows no_files s =
     (if \<not> search_missing s then s
      else update_current_year no_files (fold db_update_single_series catalog_rows s))"

text \<open>
  One pass of the loop of \<open>run_search_loop\<close>. A pass is given what the world shows
  during it: the catalog rows, whether the update leaves no candidate, the candidates
  that \<open>db_get_files\<close> yields, the numbers of active commands seen by the successive
  calls of \<open>maybe_do_search\<close>, and whether the body of the \<open>try\<close> raises after these
  candidates. The inner loop \<open>while self.maybe_do_search(entry) is False\<close> sleeps 30
  seconds and asks again for the same candidate; when the numbers run out while it
  still waits, the pass has no result.
\<close>

record pass =
  catalog_rows :: "(int \<times> int) list"
  no_files :: bool
  entries :: "int list"
  active_seen :: "int list"
  raises :: bool

fun search_entries :: "int list \<Rightarrow> int list \<Rightarrow> arr \<Rightarrow> arr option" where
  "search_entries cs [] s = Some s"
| "search_entries [] (e # es) s = None"
| "search_entries (c # cs) (e # es) s =
     (case maybe_do_search c e s of
        (Some False, s') \<Rightarrow> search_entries cs (e # es) (emit (Sleep 30) s')
      | (Some True, s') \<Rightarrow> search_entries cs es s'
      | (None, s') \<Rightarrow> search_entries cs es s')"

definition search_pass :: "int \<Rightarrow> int \<Rightarrow> pass \<Rightarrow> arr \<Rightarrow> arr option" where
  "search_pass count_start stopping_year P s =
     (case search_entries (active_seen P) (entries P)
             (db_update (catalog_rows P) (no_files P) s) of
        None \<Rightarrow> None
      | Some s1 \<Rightarrow>
          if raises P then Some (emit (LogError ''Exception'') s1)
          else
            (let s2 = s1\<lparr>search_current_year := search_current_year s1 + delta s1\<rparr> in
             if search_in_reverse s2 then
               (if stopping_year < search_current_year s2
                then Some (emit (Sleep 60) (s2\<lparr>search_current_year := count_start\<rparr>))
                else Some s2)
             else
               (if search_current_year s2 < stopping_year
                then Some (emit (Sleep 60) (s2\<lparr>search_current_year := count_start\<rparr>))
                else Some s2)))"

fun search_passes :: "int \<Rightarrow> int \<Rightarrow> pass list \<Rightarrow> arr \<Rightarrow> arr option" where
  "search_passes count_start stopping_year [] s = Some s"
| "search_passes count_start stopping_year (P # Ps) s =
     (case search_pass count_start stopping_year P s of
        None \<Rightarrow> None
      | Some s' \<Rightarrow> search_passes count_start stopping_year Ps s')"

text \<open>
  \<open>run_search_loop\<close>, with the year of \<open>datetime.now()\<close>. When the search is off it
  returns at once. Otherwise its loop never ends: the model gives the state after the
  passes it is given.
\<close>

definition run_search_loop :: "bool \<Rightarrow> int \<Rightarrow> pass list \<Rightarrow> arr \<Rightarrow> arr option" where
  "run_search_loop db_exists now_year Ps s =
     (let s1 = register_search_mode db_exists s in
      if \<not> search_missing s1 then Some s1
      else
        search_passes (search_current_year s1)
          (if search_in_reverse s1 then now_year else 1900) Ps s1)"

text \<open>
  \<open>spawn_child_processes\<close>: the workers that a reconciler starts.
\<close>

datatype worker = SearchLoop | TorrentLoop

definition spawn_child_processes :: "arr \<Rightarrow> worker list" where
  "spawn_child_processes s = (if search_missing s then [SearchLoop] else []) @ [TorrentLoop]"

section \<open>The supervisor\<close>














section \<open>Notions used to state the properties\<close>

text \<open>
  What \<open>_process_file_priority\<close> sends for one entry of \<open>change_priority\<close>, given the
  supervisor's \<open>name_cache\<close>.
\<close>

definition priority_event :: "(string \<rightharpoonup> string) \<Rightarrow> string \<times> int list \<Rightarrow> event" where
  "priority_event names e =
     (if truthy_name (names (fst e)) then TorrentsFilePriority (fst e) (snd e) 0
      else LogError (''Torrent does not exist? '' @ fst e))"


text \<open>The calls that delete an entry of the manager's queue, in the order made.\<close>

fun is_DeleteFromQueue :: "event \<Rightarrow> bool" where
  "is_DeleteFromQueue (DeleteFromQueue i r b) = True"
| "is_DeleteFromQueue _ = False"

definition queue_deletions :: "arr \<Rightarrow> event list" where
  "queue_deletions s = filter is_DeleteFromQueue (events s)"



text \<open>
  The resume calls sent to the download client so far, and the \<open>resume\<close> set.
\<close>

fun is_TorrentsResume :: "event \<Rightarrow> bool" where
  "is_TorrentsResume (TorrentsResume hs) = True"
| "is_TorrentsResume _ = False"

definition resumes :: "arr \<Rightarrow> event list \<times> string list" where
  "resumes s = (filter is_TorrentsResume (events s), resume s)"

text \<open>
  A tick that finds one torrent, paused while downloading at half of its progress, and
  a manager that answers; nothing lies in the completed folder.
\<close>

definition plain_globals :: globals where
  "plain_globals =
     \<lparr> FAILED_CATEGORY = ''failed'', RECHECK_CATEGORY = ''recheck'',
       NO_INTERNET_SLEEP_TIMER = 60, is_downloading = lib_is_downloading \<rparr>"

definition quiet_env :: env where
  "quiet_env =
     \<lparr> validate_and_return_torrent_file = Path, path_exists = (\<lambda>_. True),
       is_dir = (\<lambda>_. False), ffprobe_available = False, probe = (\<lambda>_. ProbeOutput),
       cleanup_listing = [], prune_listing = [], dir_is_empty = (\<lambda>_. False),
       folder_empty_after = False \<rparr>"

definition paused_torrent :: torrent where
  "paused_torrent =
     \<lparr> hash = ''ab12'', name = ''show'', category = ''tv'', state_enum = PAUSED_DOWNLOAD,
       progress = 0.5, availability = 1, added_on = 1000, completion_on = 0,
       last_activity = 99000, eta = 100, seeding_time = 0, amount_left = 500,
       content_path = ''/c/tv/show'', files = [] \<rparr>"

definition paused_tick :: tick where
  "paused_tick =
     \<lparr> has_internet = True, is_alive = True, now = 100000, manager_queue = [],
       time_now = 100000, torrents = [paused_torrent] \<rparr>"

text \<open>
  The scenario of the file priority mask: allowlist \<open>.mkv\<close>, folder exclusion regex
  \<open>sample\<close> (its \<open>match\<close> holds for a string that starts with \<open>sample\<close>), any file
  name exclusion regex \<open>fn\<close>; a young downloading torrent with three files of
  priority 1.
\<close>

definition mask_arr :: "(string \<Rightarrow> bool) \<Rightarrow> arr" where
  "mask_arr fn =
     (new_arr ''tv'' Sonarr)\<lparr>file_extension_allowlist := [''.mkv''],
        folder_exclusion_regex_re := (\<lambda>s. take 6 s = ''sample''),
        file_name_exclusion_regex_re := fn\<rparr>"

definition mask_torrent :: torrent where
  "mask_torrent =
     \<lparr> hash = ''ab12'', name = ''movie'', category = ''tv'', state_enum = DOWNLOADING,
       progress = 0.5, availability = 1, added_on = 99900, completion_on = 0,
       last_activity = 99990, eta = 100, seeding_time = 0, amount_left = 500,
       content_path = ''/c/tv/movie'',
       files = [\<lparr>file_id = 0, file_name = ''.../Sample/clip.mkv'', file_priority = 1\<rparr>,
                \<lparr>file_id = 1, file_name = ''movie.mkv'', file_priority = 1\<rparr>,
                \<lparr>file_id = 2, file_name = ''notes.txt'', file_priority = 1\<rparr>] \<rparr>"





text \<open>
  The rules of the classifier as the specification numbers them, each with its
  condition in the specification's words; \<open>NoRule\<close> stands for a torrent that no rule
  matches. The downloading states of rules 13 and 14 are those of the library's
  \<open>is_downloading\<close>. \<open>spec_rule\<close> is the first rule whose condition holds;
  \<open>rule_intent\<close> is the group a rule may add the hash to, \<open>rule_always\<close> the group it
  adds the hash to whatever its inner test says.
\<close>

datatype rule = R1 | R2 | R3 | R4 | R5 | R6 | R7 | R8 | R9 | R10 | R11 | R12 | R13 | R14 | NoRule







text \<open>
  The scan commands posted to the manager so far, and the scan command that
  \<open>_process_imports\<close> posts for a torrent.
\<close>

fun is_scan :: "event \<Rightarrow> bool" where
  "is_scan (PostCommand (DownloadedEpisodesScan p d m)) = True"
| "is_scan _ = False"

definition scan_events :: "arr \<Rightarrow> event list" where
  "scan_events s = filter is_scan (events s)"

definition scan_of :: "env \<Rightarrow> string \<Rightarrow> torrent \<Rightarrow> event" where
  "scan_of E mode t =
     PostCommand (DownloadedEpisodesScan
       (path_str (validate_and_return_torrent_file E (content_path t))) (upper (hash t)) mode)"

text \<open>
  A reconciler that has sent the hash \<open>AB\<close> for scanning and is about to pause \<open>CD\<close>,
  with \<open>AutoDelete\<close> set, and a completed folder that holds nothing.
\<close>

definition scanned_arr :: arr where
  "scanned_arr =
     (new_arr ''tv'' Sonarr)\<lparr>auto_delete := True, sent_to_scan_hashes := [''AB''],
        pause := [''CD'']\<rparr>"

definition empty_folder_env :: env where
  "empty_folder_env = quiet_env\<lparr>folder_empty_after := True\<rparr>"



text \<open>
  A reconciler as \<open>__init__\<close> leaves it, told to search for missing items, and a pass
  of the search loop that would find one candidate.
\<close>

definition searching_arr :: arr where
  "searching_arr = (new_arr ''tv'' Sonarr)\<lparr>search_missing := True\<rparr>"

definition one_candidate :: pass where
  "one_candidate =
     \<lparr> catalog_rows = [(1, 0)], no_files = False, entries = [1], active_seen = [0],
       raises = False \<rparr>"











section \<open>Properties\<close>

subsection \<open>File priorities\<close>

lemma file_priority_step_fields:
  "events (file_priority_step e s) = events s @ [priority_event (name_cache s) e]"
  "name_cache (file_priority_step e s) = name_cache s"
  "change_priority (file_priority_step e s) = filter (\<lambda>kv. fst kv \<noteq> fst e) (change_priority s)"
  by (simp_all add: file_priority_step_def priority_event_def emit_def Let_def)

lemma fold_file_priority_step:
  "events (fold file_priority_step cp s) = events s @ map (priority_event (name_cache s)) cp
   \<and> name_cache (fold file_priority_step cp s) = name_cache s
   \<and> change_priority (fold file_priority_step cp s)
       = filter (\<lambda>kv. fst kv \<notin> fst ` set cp) (change_priority s)"
proof (induction cp arbitrary: s)
  case Nil
  show ?case by simp
next
  case (Cons e cp)
  show ?case
    using Cons.IH [of "file_priority_step e s"]
    by (auto simp add: file_priority_step_fields intro: filter_cong)
qed

text \<open>
  C10. During \<open>_process_file_priority\<close>, an entry of \<open>change_priority\<close> whose hash has
  no name in the supervisor's \<open>name_cache\<close> causes no file-priority call to the download
  client: the events added are one per entry, and the entry of such a hash adds an error
  record instead of a call. The entry is removed all the same: \<open>change_priority\<close> is
  empty afterwards.
\<close>

theorem file_priority_absent_name:
  assumes "(h, ids) \<in> set (change_priority s)" and "name_cache s h = None"
  shows "change_priority (process_file_priority s) = []
     \<and> events (process_file_priority s)
         = events s @ map (priority_event (name_cache s)) (change_priority s)
     \<and> (\<forall>fs p. TorrentsFilePriority h fs p
           \<notin> set (map (priority_event (name_cache s)) (change_priority s)))
     \<and> LogError (''Torrent does not exist? '' @ h)
           \<in> set (map (priority_event (name_cache s)) (change_priority s))"
proof -
  have a: "change_priority (process_file_priority s) = []"
    using fold_file_priority_step [of "change_priority s" s]
    by (simp add: process_file_priority_def filter_empty_conv)
  have b: "events (process_file_priority s)
         = events s @ map (priority_event (name_cache s)) (change_priority s)"
    using fold_file_priority_step [of "change_priority s" s]
    by (simp add: process_file_priority_def)
  have c: "\<forall>fs p. TorrentsFilePriority h fs p
           \<notin> set (map (priority_event (name_cache s)) (change_priority s))"
    using assms(2) by (auto simp add: priority_event_def truthy_name_def)
  have d: "LogError (''Torrent does not exist? '' @ h)
           \<in> set (map (priority_event (name_cache s)) (change_priority s))"
    using assms by (force simp add: priority_event_def truthy_name_def)
  show ?thesis using a b c d by blast
qed

theorem file_priority_absent_name_witness:
  "change_priority (process_file_priority
      ((new_arr ''tv'' Sonarr)\<lparr>change_priority := [(''AB'', [0, 2])]\<rparr>)) = []
   \<and> events (process_file_priority
      ((new_arr ''tv'' Sonarr)\<lparr>change_priority := [(''AB'', [0, 2])]\<rparr>))
       = [LogError ''Torrent does not exist? AB'']"
  using file_priority_absent_name [of "''AB''" "[0, 2]"
      "(new_arr ''tv'' Sonarr)\<lparr>change_priority := [(''AB'', [0, 2])]\<rparr>"]
  by (simp add: new_arr_def priority_event_def truthy_name_def)


subsection \<open>Failed torrents\<close>

lemma individual_fields:
  "queue_deletions (process_failed_individual h e skip s)
     = queue_deletions s @ [DeleteFromQueue e True (h \<notin> set skip)]"
  "arr_type (process_failed_individual h e skip s) = arr_type s"
  "requeue_cache_sonarr (process_failed_individual h e skip s) = requeue_cache_sonarr s"
  "requeue_cache_radarr (process_failed_individual h e skip s) = requeue_cache_radarr s"
  "name_cache (process_failed_individual h e skip s) = name_cache s"
  "qbit_cache (process_failed_individual h e skip s) = qbit_cache s"
  by (simp_all add: process_failed_individual_def queue_deletions_def emit_def Let_def
        split: arr_kind.splits option.splits list.splits)


lemma fold_individual_caches:
  "name_cache (fold (\<lambda>p. process_failed_individual (snd p) (fst p) skip) ps s) = name_cache s
   \<and> qbit_cache (fold (\<lambda>p. process_failed_individual (snd p) (fst p) skip) ps s) = qbit_cache s"
  by (induction ps arbitrary: s) (simp_all add: individual_fields)

lemma process_entries_Nil [simp]: "process_entries s [] = []"
  by (simp add: process_entries_def List.map_filter_simps)


lemma set_set_add [simp]: "set (set_add x xs) = insert x (set xs)"
  by (auto simp add: set_add_def)

lemma set_fold_set_add [simp]: "set (fold set_add ys xs) = set xs \<union> set ys"
  by (induction ys arbitrary: xs) auto

lemma set_set_union [simp]: "set (set_union xs ys) = set xs \<union> set ys"
  by (simp add: set_union_def)





subsection \<open>The flush never resumes\<close>

lemma fold_keeps:
  assumes "\<And>x s. g (f x s) = g s"
  shows "g (fold f xs s) = g s"
  using assms by (induction xs arbitrary: s) simp_all

lemma resumes_emit: "\<not> is_TorrentsResume e \<Longrightarrow> resumes (emit e s) = resumes s"
  by (simp add: resumes_def emit_def)

lemma resumes_process_paused: "resumes (process_paused s) = resumes s"
  by (simp add: process_paused_def resumes_def emit_def)

lemma resumes_process_errored: "resumes (process_errored s) = resumes s"
  by (simp add: process_errored_def resumes_def emit_def Let_def)

lemma resumes_file_priority_step: "resumes (file_priority_step e s) = resumes s"
  by (simp add: file_priority_step_def resumes_def emit_def Let_def)

lemma resumes_process_file_priority: "resumes (process_file_priority s) = resumes s"
  unfolding process_file_priority_def
  by (rule fold_keeps) (rule resumes_file_priority_step)

lemma resumes_import_step: "resumes (import_step E t s) = resumes s"
  by (simp add: import_step_def resumes_def emit_def Let_def)

lemma resumes_process_imports: "resumes (process_imports E s) = resumes s"
proof -
  have "resumes (fold (import_step E) (import_torrents s) (s\<lparr>needs_cleanup := True\<rparr>))
          = resumes (s\<lparr>needs_cleanup := True\<rparr>)"
    by (rule fold_keeps) (rule resumes_import_step)
  then show ?thesis
    by (simp add: process_imports_def resumes_def)
qed

lemma resumes_individual: "resumes (process_failed_individual h e skip s) = resumes s"
  by (simp add: process_failed_individual_def resumes_def emit_def Let_def
        split: arr_kind.splits option.splits list.splits)

lemma resumes_process_failed:
  "fst (resumes (process_failed s)) = fst (resumes s) \<and> resume (process_failed s) = resume s"
proof -
  let ?f = "\<lambda>p. process_failed_individual (snd p) (fst p) (remdups (map upper (skip_blacklist s)))"
  have "resumes (fold ?f ps (s\<lparr>needs_cleanup := True\<rparr>)) = resumes (s\<lparr>needs_cleanup := True\<rparr>)"
    for ps
    by (rule fold_keeps) (rule resumes_individual)
  then show ?thesis
    by (simp add: process_failed_def resumes_def emit_def Let_def)
qed

lemma resumes_cleanup_file: "resumes (cleanup_file E f s) = resumes s"
  by (simp add: cleanup_file_def file_is_probeable_def resumes_def emit_def
        split: probe_result.splits)

lemma resumes_prune_dirs: "resumes (snd (prune_dirs E ps new s)) = resumes s"
  by (induction ps arbitrary: new s) (simp_all add: Let_def resumes_def emit_def)

lemma resumes_remove_empty_folders: "resumes (remove_empty_folders E s) = resumes s"
proof (cases "prune_dirs E (prune_listing E) [] s")
  case (Pair new s1)
  then show ?thesis
    using resumes_prune_dirs [of E "prune_listing E" "[]" s]
    by (simp add: remove_empty_folders_def resumes_def Let_def)
qed

lemma resumes_folder_cleanup: "resumes (folder_cleanup E s) = resumes s"
proof -
  have "resumes (fold (cleanup_file E) (cleanup_listing E) s) = resumes s"
    by (rule fold_keeps) (rule resumes_cleanup_file)
  then show ?thesis
    using resumes_remove_empty_folders [of E "fold (cleanup_file E) (cleanup_listing E) s"]
    by (simp add: folder_cleanup_def resumes_def)
qed

text \<open>
  C2. The source's \<open>process\<close> calls \<open>_process_paused\<close>, \<open>_process_errored\<close>,
  \<open>_process_file_priority\<close>, \<open>_process_imports\<close>, \<open>_process_failed\<close> and
  \<open>folder_cleanup\<close>, and never \<open>_process_resume\<close>. Whatever the state and the
  environment, it sends no resume call and leaves the \<open>resume\<close> set as it was, where
  the claim has the set resumed after the deletions.
\<close>

theorem process_never_resumes:
  "filter is_TorrentsResume (events (process E s)) = filter is_TorrentsResume (events s)
   \<and> resume (process E s) = resume s"
proof -
  have "resumes (process E s) = resumes (process_failed (process_imports E
          (process_file_priority (process_errored (process_paused s)))))"
    by (simp add: process_def resumes_folder_cleanup)
  moreover have "fst (resumes (process_failed x)) = fst (resumes x)
      \<and> snd (resumes (process_failed x)) = snd (resumes x)" for x
    using resumes_process_failed [of x] by (simp add: resumes_def)
  ultimately have "resumes (process E s) = resumes s"
    by (simp add: prod_eq_iff resumes_process_imports resumes_process_file_priority
          resumes_process_errored resumes_process_paused)
  then show ?thesis by (simp add: resumes_def)
qed

lemma upper_ab12: "upper ''ab12'' = ''AB12''"
  by (simp add: upper_def upper_char_def)

text \<open>
  One tick on a torrent paused while downloading: the classifier puts its hash into
  \<open>resume\<close>, and the tick ends with the hash still there and no resume call sent.
\<close>

theorem paused_download_not_resumed:
  "resume (snd (process_torrents plain_globals quiet_env paused_tick (new_arr ''tv'' Sonarr)))
     = [''ab12'']
   \<and> events (snd (process_torrents plain_globals quiet_env paused_tick (new_arr ''tv'' Sonarr)))
     = [PostCommand RssSync, PostCommand RefreshMonitoredDownloads]"
  by (simp add: process_torrents_def paused_tick_def paused_torrent_def plain_globals_def
        quiet_env_def new_arr_def api_calls_def refresh_download_queue_def emit_def Let_def
        classify_def note_torrent_def is_ignored_state_def is_complete_state_def
        target_sent_to_scan_hashes_def set_add_def process_def process_paused_def
        process_errored_def process_file_priority_def process_imports_def process_failed_def
        set_union_def folder_cleanup_def)

subsection \<open>File-level filtering\<close>

lemma mask_marked:
  "marked (mask_arr fn) \<lparr>file_id = 0, file_name = ''.../Sample/clip.mkv'', file_priority = 1\<rparr>"
  "marked (mask_arr fn) \<lparr>file_id = 1, file_name = ''movie.mkv'', file_priority = 1\<rparr>
     = fn ''movie.mkv''"
  "marked (mask_arr fn) \<lparr>file_id = 2, file_name = ''notes.txt'', file_priority = 1\<rparr>"
  by (simp_all add: marked_def mask_arr_def new_arr_def path_suffix_def path_name_def
        path_parts_def parent_names_def lower_def lower_char_def)

lemma marked_frame:
  "marked (s\<lparr>change_priority := c\<rparr>) f = marked s f"
  "marked (s\<lparr>delete := d\<rparr>) f = marked s f"
  "marked (s\<lparr>name_cache := n\<rparr>) f = marked s f"
  "marked (s\<lparr>qbit_cache := q\<rparr>) f = marked s f"
  by (simp_all add: marked_def)

text \<open>
  C6. In the scenario the source records \<open>change_priority[hash] = [0]\<close>, the files
  marked when the first file has been looked at, and not the \<open>[0, 2]\<close> of the claim: the
  test \<open>total == 0\<close> and the recording stand inside the loop over the files, and a
  hash once recorded is not recorded again. The hash is not added to \<open>delete\<close> unless
  the file name exclusion regex matches \<open>movie.mkv\<close>.
\<close>

theorem file_mask_records_prefix:
  "change_priority (snd (classify plain_globals 100000 mask_torrent (mask_arr fn)))
     = [(''ab12'', [0])]
   \<and> delete (snd (classify plain_globals 100000 mask_torrent (mask_arr fn)))
     = (if fn ''movie.mkv'' then [''ab12''] else [])"
proof -
  have c: "classify plain_globals 100000 mask_torrent (mask_arr fn)
      = (None, parse_files ''ab12'' (files mask_torrent) [] 3
                 (note_torrent plain_globals mask_torrent (mask_arr fn)))"
    by (simp add: classify_def mask_torrent_def mask_arr_def new_arr_def plain_globals_def
          lib_is_downloading_def is_ignored_state_def is_complete_state_def
          is_uploading_state_def note_torrent_def target_sent_to_scan_hashes_def Let_def)
  have n: "note_torrent plain_globals mask_torrent (mask_arr fn)
      = (mask_arr fn)\<lparr>qbit_cache := [''ab12'' \<mapsto> ''tv''], name_cache := [''ab12'' \<mapsto> ''movie'']\<rparr>"
    by (simp add: note_torrent_def mask_torrent_def mask_arr_def new_arr_def plain_globals_def)
  have e: "change_priority (mask_arr fn) = []" "delete (mask_arr fn) = []"
    by (simp_all add: mask_arr_def new_arr_def)
  show ?thesis
    unfolding c n
    by (simp add: mask_torrent_def mask_marked marked_frame e set_add_def Let_def)
qed

subsection \<open>The classifier fires one branch\<close>



lemma note_torrent_fields [simp]:
  "pause (note_torrent g t s) = pause s"
  "resume (note_torrent g t s) = resume s"
  "recheck (note_torrent g t s) = recheck s"
  "delete (note_torrent g t s) = delete s"
  "skip_blacklist (note_torrent g t s) = skip_blacklist s"
  "timed_ignore_cache (note_torrent g t s) = timed_ignore_cache s"
  "timed_skip (note_torrent g t s) = timed_skip s"
  "maximum_deletable_percentage (note_torrent g t s) = maximum_deletable_percentage s"
  "maximum_eta (note_torrent g t s) = maximum_eta s"
  "ignore_torrents_younger_than (note_torrent g t s) = ignore_torrents_younger_than s"
  "target_sent_to_scan_hashes (note_torrent g t s) = target_sent_to_scan_hashes s"
  by (auto simp: note_torrent_def Let_def target_sent_to_scan_hashes_def fun_eq_iff)

lemma set_add_neq: "set_add h xs \<noteq> xs \<Longrightarrow> h \<notin> set xs"
  by (auto simp: set_add_def)

lemma in_set_add [simp]: "h \<in> set (set_add h xs)"
  by (simp add: set_add_def)

















subsection \<open>The hashes sent for scanning\<close>

lemma parse_files_sent:
  "sent_to_scan_hashes (parse_files h fs rm n s) = sent_to_scan_hashes s
   \<and> import_torrents (parse_files h fs rm n s) = import_torrents s"
proof (induction fs arbitrary: rm n s)
  case Nil
  show ?case by simp
next
  case (Cons f fs)
  show ?case
  proof (cases "file_priority f = 0")
    case True
    then show ?thesis using Cons.IH [of rm "n - 1" s] by simp
  next
    case False
    define rm' where "rm' = (if marked s f then set_add (file_id f) rm else rm)"
    define n' where "n' = (if marked s f then n - 1 else n)"
    define s' where "s' = (if n' = 0 then s\<lparr>delete := set_add h (delete s)\<rparr>
                  else if rm' \<noteq> [] \<and> map_of (change_priority s) h = None
                    then s\<lparr>change_priority := change_priority s @ [(h, rm')]\<rparr>
                  else s)"
    have step: "parse_files h (f # fs) rm n s = parse_files h fs rm' n' s'"
      using False by (simp add: rm'_def n'_def s'_def Let_def)
    have "sent_to_scan_hashes s' = sent_to_scan_hashes s" "import_torrents s' = import_torrents s"
      by (simp_all add: s'_def)
    then show ?thesis
      using Cons.IH [of rm' n' s'] unfolding step by simp
  qed
qed

lemma note_torrent_sent [simp]:
  "sent_to_scan_hashes (note_torrent g t s) = sent_to_scan_hashes s"
  "import_torrents (note_torrent g t s) = import_torrents s"
  by (simp_all add: note_torrent_def Let_def)

lemma classify_keeps_sent:
  "sent_to_scan_hashes (snd (classify g tn t s)) = sent_to_scan_hashes s"
proof (cases "target_sent_to_scan_hashes (note_torrent g t s) (category t)")
  case None
  then show ?thesis
    by (simp add: classify_def Let_def parse_files_sent if_distrib [of snd]
        if_distrib [of sent_to_scan_hashes]
        split del: if_split cong del: if_weak_cong)
next
  case (Some sent)
  then show ?thesis
    by (simp add: classify_def Let_def parse_files_sent if_distrib [of snd]
        if_distrib [of sent_to_scan_hashes]
        split del: if_split cong del: if_weak_cong)
qed

lemma classify_skips_sent:
  assumes "hash t \<in> set (sent_to_scan_hashes s)" and "category t = self_category s"
  shows "import_torrents (snd (classify g tn t s)) = import_torrents s"
proof -
  have "target_sent_to_scan_hashes (note_torrent g t s) (category t)
          = Some (sent_to_scan_hashes s)"
    using assms(2) by (simp add: target_sent_to_scan_hashes_def note_torrent_def Let_def)
  then show ?thesis
    using assms(1)
    by (simp add: classify_def Let_def if_distrib [of snd]
        if_distrib [of import_torrents]
        split del: if_split cong del: if_weak_cong)
qed

lemma sent_process_paused:
  "sent_to_scan_hashes (process_paused s) = sent_to_scan_hashes s"
  by (simp add: process_paused_def emit_def)

lemma sent_process_errored:
  "sent_to_scan_hashes (process_errored s) = sent_to_scan_hashes s"
  by (simp add: process_errored_def emit_def Let_def)

lemma sent_file_priority_step:
  "sent_to_scan_hashes (file_priority_step e s) = sent_to_scan_hashes s"
  by (simp add: file_priority_step_def emit_def Let_def)

lemma sent_process_file_priority:
  "sent_to_scan_hashes (process_file_priority s) = sent_to_scan_hashes s"
  unfolding process_file_priority_def
  by (rule fold_keeps) (rule sent_file_priority_step)

lemma sent_import_step:
  "set (sent_to_scan_hashes s) \<subseteq> set (sent_to_scan_hashes (import_step E t s))"
  by (auto simp add: import_step_def emit_def Let_def)

lemma sent_fold_import_step:
  "set (sent_to_scan_hashes s) \<subseteq> set (sent_to_scan_hashes (fold (import_step E) ts s))"
proof (induction ts arbitrary: s)
  case Nil
  show ?case by simp
next
  case (Cons t ts)
  show ?case
    using sent_import_step [of s E t] Cons.IH [of "import_step E t s"] by auto
qed

lemma sent_process_imports:
  "set (sent_to_scan_hashes s) \<subseteq> set (sent_to_scan_hashes (process_imports E s))"
  using sent_fold_import_step [of "s\<lparr>needs_cleanup := True\<rparr>" E "import_torrents s"]
  by (simp add: process_imports_def)

lemma sent_individual:
  "sent_to_scan_hashes (process_failed_individual h e skip s) = sent_to_scan_hashes s"
  by (simp add: process_failed_individual_def emit_def Let_def
        split: arr_kind.splits option.splits list.splits)

lemma sent_process_failed:
  "sent_to_scan_hashes (process_failed s) = sent_to_scan_hashes s"
proof -
  let ?f = "\<lambda>p. process_failed_individual (snd p) (fst p) (remdups (map upper (skip_blacklist s)))"
  have "sent_to_scan_hashes (fold ?f ps (s\<lparr>needs_cleanup := True\<rparr>))
          = sent_to_scan_hashes (s\<lparr>needs_cleanup := True\<rparr>)" for ps
    by (rule fold_keeps) (rule sent_individual)
  then show ?thesis
    by (simp add: process_failed_def emit_def Let_def)
qed

lemma sent_cleanup_file:
  "sent_to_scan_hashes (cleanup_file E f s) = sent_to_scan_hashes s"
  by (simp add: cleanup_file_def file_is_probeable_def emit_def split: probe_result.splits)

lemma sent_prune_dirs:
  "sent_to_scan_hashes (snd (prune_dirs E ps new s)) = sent_to_scan_hashes s"
  by (induction ps arbitrary: new s) (simp_all add: Let_def emit_def)

lemma sent_remove_empty_folders:
  "sent_to_scan_hashes (remove_empty_folders E s)
     = (if folder_empty_after E then [] else sent_to_scan_hashes s)"
proof (cases "prune_dirs E (prune_listing E) [] s")
  case (Pair new s1)
  then show ?thesis
    using sent_prune_dirs [of E "prune_listing E" "[]" s]
    by (simp add: remove_empty_folders_def Let_def)
qed

lemma sent_folder_cleanup:
  "sent_to_scan_hashes (folder_cleanup E s)
     = (if auto_delete s \<and> needs_cleanup s \<and> folder_empty_after E then []
        else sent_to_scan_hashes s)"
proof -
  have "sent_to_scan_hashes (fold (cleanup_file E) (cleanup_listing E) s)
          = sent_to_scan_hashes s"
    by (rule fold_keeps) (rule sent_cleanup_file)
  then show ?thesis
    by (simp add: folder_cleanup_def sent_remove_empty_folders)
qed

lemma scan_import_step:
  "scan_events (import_step E t s) = scan_events s
   \<or> scan_events (import_step E t s) = scan_events s @ [scan_of E (import_mode s) t]"
  by (simp add: import_step_def scan_events_def scan_of_def emit_def Let_def)

lemma import_step_mode: "import_mode (import_step E t s) = import_mode s"
  by (simp add: import_step_def emit_def Let_def)

lemma scan_fold_import_step:
  "set (scan_events (fold (import_step E) ts s))
     \<subseteq> set (scan_events s) \<union> scan_of E (import_mode s) ` set ts"
proof (induction ts arbitrary: s)
  case Nil
  show ?case by simp
next
  case (Cons t ts)
  show ?case
    using scan_import_step [of E t s] Cons.IH [of "import_step E t s"]
    by (auto simp add: import_step_mode)
qed

lemma scan_process_imports:
  "set (scan_events (process_imports E s))
     \<subseteq> set (scan_events s) \<union> scan_of E (import_mode s) ` set (import_torrents s)"
  using scan_fold_import_step [of E "import_torrents s" "s\<lparr>needs_cleanup := True\<rparr>"]
  by (simp add: process_imports_def scan_events_def)

text \<open>
  C4, as amended. The classifier and the flush steps \<open>_process_paused\<close>,
  \<open>_process_errored\<close>, \<open>_process_file_priority\<close> and \<open>_process_failed\<close> leave
  \<open>sent_to_scan_hashes\<close> as it is, and \<open>_process_imports\<close> only adds to it. Folder
  cleanup leaves it too, except that it empties the set when it runs and the completed
  folder holds nothing afterwards; so a whole flush keeps every hash unless the folder
  is found empty. A torrent of the reconciler's category whose hash is in the set is
  not queued for import by the classifier, and \<open>_process_imports\<close> posts scan commands
  for queued torrents only.
\<close>

theorem sent_to_scan_hashes_growth:
  "sent_to_scan_hashes (snd (classify g tn t s)) = sent_to_scan_hashes s
   \<and> sent_to_scan_hashes (process_paused s) = sent_to_scan_hashes s
   \<and> sent_to_scan_hashes (process_errored s) = sent_to_scan_hashes s
   \<and> sent_to_scan_hashes (process_file_priority s) = sent_to_scan_hashes s
   \<and> sent_to_scan_hashes (process_failed s) = sent_to_scan_hashes s
   \<and> set (sent_to_scan_hashes s) \<subseteq> set (sent_to_scan_hashes (process_imports E s))
   \<and> sent_to_scan_hashes (folder_cleanup E s)
       = (if auto_delete s \<and> needs_cleanup s \<and> folder_empty_after E then []
          else sent_to_scan_hashes s)
   \<and> (\<not> folder_empty_after E \<longrightarrow>
         set (sent_to_scan_hashes s) \<subseteq> set (sent_to_scan_hashes (process E s)))
   \<and> (hash t \<in> set (sent_to_scan_hashes s) \<and> category t = self_category s \<longrightarrow>
         import_torrents (snd (classify g tn t s)) = import_torrents s)
   \<and> set (scan_events (process_imports E s))
       \<subseteq> set (scan_events s) \<union> scan_of E (import_mode s) ` set (import_torrents s)"
proof -
  have flush: "\<not> folder_empty_after E \<longrightarrow>
         set (sent_to_scan_hashes s) \<subseteq> set (sent_to_scan_hashes (process E s))"
    using sent_process_imports [of "process_file_priority (process_errored (process_paused s))" E]
    by (simp add: process_def sent_folder_cleanup sent_process_failed
          sent_process_file_priority sent_process_errored sent_process_paused)
  show ?thesis
    using flush classify_skips_sent [of t s g tn]
    by (simp add: classify_keeps_sent sent_process_paused sent_process_errored
          sent_process_file_priority sent_process_failed sent_process_imports
          sent_folder_cleanup scan_process_imports)
qed

text \<open>
  C4 as stated fails: a flush that pauses a torrent runs folder cleanup, and with
  nothing left in the completed folder the hash \<open>AB\<close>, sent for scanning before, is
  dropped from \<open>sent_to_scan_hashes\<close>.
\<close>

theorem sent_to_scan_hashes_counterexample:
  "''AB'' \<in> set (sent_to_scan_hashes scanned_arr)
   \<and> sent_to_scan_hashes (process empty_folder_env scanned_arr) = []"
  by (simp add: scanned_arr_def empty_folder_env_def quiet_env_def new_arr_def process_def
        sent_folder_cleanup sent_process_failed process_paused_def process_errored_def
        process_file_priority_def process_imports_def process_failed_def set_union_def
        emit_def Let_def)

theorem sent_to_scan_hashes_growth_witness:
  "import_torrents (snd (classify plain_globals 100000 (paused_torrent\<lparr>hash := ''AB''\<rparr>)
       scanned_arr)) = []
   \<and> ''AB'' \<in> set (sent_to_scan_hashes (process quiet_env scanned_arr))"
proof -
  have h: "hash (paused_torrent\<lparr>hash := ''AB''\<rparr>) \<in> set (sent_to_scan_hashes scanned_arr)
      \<and> category (paused_torrent\<lparr>hash := ''AB''\<rparr>) = self_category scanned_arr"
    by (simp add: paused_torrent_def scanned_arr_def new_arr_def)
  have e: "\<not> folder_empty_after quiet_env" by (simp add: quiet_env_def)
  have i: "import_torrents scanned_arr = []" "sent_to_scan_hashes scanned_arr = [''AB'']"
    by (simp_all add: scanned_arr_def new_arr_def)
  show ?thesis
    using h e i sent_to_scan_hashes_growth [where g = plain_globals and tn = 100000
        and t = "paused_torrent\<lparr>hash := ''AB''\<rparr>" and s = scanned_arr and E = quiet_env]
    by auto
qed

subsection \<open>The search cap\<close>



subsection \<open>Search turned off by a missing catalog\<close>

text \<open>
  The reconciler's tick does not read the attribute \<open>search_missing\<close>: setting it
  before a step or after it gives the same state.
\<close>

lemma sm_out:
  "(s\<lparr>search_missing := b\<rparr>)\<lparr>needs_cleanup := v0\<rparr> = (s\<lparr>needs_cleanup := v0\<rparr>)\<lparr>search_missing := b\<rparr>"
  "(s\<lparr>search_missing := b\<rparr>)\<lparr>pause := v1\<rparr> = (s\<lparr>pause := v1\<rparr>)\<lparr>search_missing := b\<rparr>"
  "(s\<lparr>search_missing := b\<rparr>)\<lparr>recheck := v2\<rparr> = (s\<lparr>recheck := v2\<rparr>)\<lparr>search_missing := b\<rparr>"
  "(s\<lparr>search_missing := b\<rparr>)\<lparr>timed_ignore_cache := v3\<rparr> = (s\<lparr>timed_ignore_cache := v3\<rparr>)\<lparr>search_missing := b\<rparr>"
  "(s\<lparr>search_missing := b\<rparr>)\<lparr>events := v4\<rparr> = (s\<lparr>events := v4\<rparr>)\<lparr>search_missing := b\<rparr>"
  "(s\<lparr>search_missing := b\<rparr>)\<lparr>change_priority := v5\<rparr> = (s\<lparr>change_priority := v5\<rparr>)\<lparr>search_missing := b\<rparr>"
  "(s\<lparr>search_missing := b\<rparr>)\<lparr>skip_blacklist := v6\<rparr> = (s\<lparr>skip_blacklist := v6\<rparr>)\<lparr>search_missing := b\<rparr>"
  "(s\<lparr>search_missing := b\<rparr>)\<lparr>sent_to_scan_hashes := v7\<rparr> = (s\<lparr>sent_to_scan_hashes := v7\<rparr>)\<lparr>search_missing := b\<rparr>"
  "(s\<lparr>search_missing := b\<rparr>)\<lparr>sent_to_scan := v8\<rparr> = (s\<lparr>sent_to_scan := v8\<rparr>)\<lparr>search_missing := b\<rparr>"
  "(s\<lparr>search_missing := b\<rparr>)\<lparr>import_torrents := v9\<rparr> = (s\<lparr>import_torrents := v9\<rparr>)\<lparr>search_missing := b\<rparr>"
  "(s\<lparr>search_missing := b\<rparr>)\<lparr>name_cache := v10\<rparr> = (s\<lparr>name_cache := v10\<rparr>)\<lparr>search_missing := b\<rparr>"
  "(s\<lparr>search_missing := b\<rparr>)\<lparr>qbit_cache := v11\<rparr> = (s\<lparr>qbit_cache := v11\<rparr>)\<lparr>search_missing := b\<rparr>"
  "(s\<lparr>search_missing := b\<rparr>)\<lparr>delete := v12\<rparr> = (s\<lparr>delete := v12\<rparr>)\<lparr>search_missing := b\<rparr>"
  "(s\<lparr>search_missing := b\<rparr>)\<lparr>files_probed := v13\<rparr> = (s\<lparr>files_probed := v13\<rparr>)\<lparr>search_missing := b\<rparr>"
  "(s\<lparr>search_missing := b\<rparr>)\<lparr>should_delay_torrent_scan := v14\<rparr> = (s\<lparr>should_delay_torrent_scan := v14\<rparr>)\<lparr>search_missing := b\<rparr>"
  "(s\<lparr>search_missing := b\<rparr>)\<lparr>rss_sync_timer_last_checked := v15\<rparr> = (s\<lparr>rss_sync_timer_last_checked := v15\<rparr>)\<lparr>search_missing := b\<rparr>"
  "(s\<lparr>search_missing := b\<rparr>)\<lparr>refresh_downloads_timer_last_checked := v16\<rparr> = (s\<lparr>refresh_downloads_timer_last_checked := v16\<rparr>)\<lparr>search_missing := b\<rparr>"
  "(s\<lparr>search_missing := b\<rparr>)\<lparr>cache := v17\<rparr> = (s\<lparr>cache := v17\<rparr>)\<lparr>search_missing := b\<rparr>"
  "(s\<lparr>search_missing := b\<rparr>)\<lparr>requeue_cache_sonarr := v18\<rparr> = (s\<lparr>requeue_cache_sonarr := v18\<rparr>)\<lparr>search_missing := b\<rparr>"
  "(s\<lparr>search_missing := b\<rparr>)\<lparr>requeue_cache_radarr := v19\<rparr> = (s\<lparr>requeue_cache_radarr := v19\<rparr>)\<lparr>search_missing := b\<rparr>"
  "(s\<lparr>search_missing := b\<rparr>)\<lparr>resume := v20\<rparr> = (s\<lparr>resume := v20\<rparr>)\<lparr>search_missing := b\<rparr>"
  "(s\<lparr>search_missing := b\<rparr>)\<lparr>timed_skip := v21\<rparr> = (s\<lparr>timed_skip := v21\<rparr>)\<lparr>search_missing := b\<rparr>"
  by simp_all

lemma fold_commutes:
  assumes "\<And>x s. f x (u s) = u (f x s)"
  shows "fold f xs (u s) = u (fold f xs s)"
  using assms by (induction xs arbitrary: s) simp_all

lemma sm_process_paused:
  "process_paused (s\<lparr>search_missing := b\<rparr>) = (process_paused s)\<lparr>search_missing := b\<rparr>"
  by (simp add: process_paused_def emit_def)

lemma sm_process_errored:
  "process_errored (s\<lparr>search_missing := b\<rparr>) = (process_errored s)\<lparr>search_missing := b\<rparr>"
  by (simp add: process_errored_def emit_def Let_def)

lemma sm_file_priority_step:
  "file_priority_step e (s\<lparr>search_missing := b\<rparr>)
     = (file_priority_step e s)\<lparr>search_missing := b\<rparr>"
  by (simp add: file_priority_step_def emit_def Let_def)

lemma sm_process_file_priority:
  "process_file_priority (s\<lparr>search_missing := b\<rparr>)
     = (process_file_priority s)\<lparr>search_missing := b\<rparr>"
  using fold_commutes [of file_priority_step "\<lambda>s. s\<lparr>search_missing := b\<rparr>" "change_priority s" s]
  by (simp add: process_file_priority_def sm_file_priority_step)

lemma sm_import_step:
  "import_step E t (s\<lparr>search_missing := b\<rparr>) = (import_step E t s)\<lparr>search_missing := b\<rparr>"
  by (simp add: import_step_def emit_def Let_def)

lemma sm_process_imports:
  "process_imports E (s\<lparr>search_missing := b\<rparr>) = (process_imports E s)\<lparr>search_missing := b\<rparr>"
proof -
  have "fold (import_step E) ts (x\<lparr>search_missing := b\<rparr>)
      = (fold (import_step E) ts x)\<lparr>search_missing := b\<rparr>" for ts x
    using fold_commutes [of "import_step E" "\<lambda>s. s\<lparr>search_missing := b\<rparr>" ts x]
    by (simp add: sm_import_step)
  then show ?thesis
    by (simp add: process_imports_def sm_out)
qed

lemma sm_individual:
  "process_failed_individual h e k (s\<lparr>search_missing := b\<rparr>)
     = (process_failed_individual h e k s)\<lparr>search_missing := b\<rparr>"
  by (simp add: process_failed_individual_def emit_def Let_def
        split: arr_kind.splits option.splits list.splits)

lemma sm_process_entries:
  "process_entries (s\<lparr>search_missing := b\<rparr>) T = process_entries s T"
  "process_entries (s\<lparr>needs_cleanup := c\<rparr>) T = process_entries s T"
  by (simp_all add: process_entries_def)

lemma sm_process_failed:
  "process_failed (s\<lparr>search_missing := b\<rparr>) = (process_failed s)\<lparr>search_missing := b\<rparr>"
proof -
  let ?f = "\<lambda>p. process_failed_individual (snd p) (fst p) (remdups (map upper (skip_blacklist s)))"
  let ?T = "set_union (delete s) (skip_blacklist s)"
  have f: "fold ?f ps (x\<lparr>search_missing := b\<rparr>) = (fold ?f ps x)\<lparr>search_missing := b\<rparr>" for ps x
    using fold_commutes [of ?f "\<lambda>s. s\<lparr>search_missing := b\<rparr>" ps x]
    by (simp add: sm_individual)
  show ?thesis
  proof (cases "?T = []")
    case True
    then show ?thesis by (simp add: process_failed_def Let_def)
  next
    case False
    then show ?thesis
      by (simp add: process_failed_def Let_def sm_process_entries sm_out f emit_def cong: if_cong)
  qed
qed

lemma sm_cleanup_file:
  "cleanup_file E f (s\<lparr>search_missing := b\<rparr>) = (cleanup_file E f s)\<lparr>search_missing := b\<rparr>"
  by (simp add: cleanup_file_def file_is_probeable_def emit_def split: probe_result.splits)

lemma sm_prune_dirs:
  "prune_dirs E ps new (s\<lparr>search_missing := b\<rparr>)
     = apsnd (\<lambda>x. x\<lparr>search_missing := b\<rparr>) (prune_dirs E ps new s)"
  by (induction ps arbitrary: new s) (simp_all add: Let_def emit_def sm_out)

lemma sm_remove_empty_folders:
  "remove_empty_folders E (s\<lparr>search_missing := b\<rparr>)
     = (remove_empty_folders E s)\<lparr>search_missing := b\<rparr>"
proof (cases "prune_dirs E (prune_listing E) [] s")
  case (Pair new s1)
  then show ?thesis
    by (simp add: remove_empty_folders_def sm_prune_dirs Let_def)
qed

lemma sm_folder_cleanup:
  "folder_cleanup E (s\<lparr>search_missing := b\<rparr>) = (folder_cleanup E s)\<lparr>search_missing := b\<rparr>"
proof -
  have "fold (cleanup_file E) fs (x\<lparr>search_missing := b\<rparr>)
      = (fold (cleanup_file E) fs x)\<lparr>search_missing := b\<rparr>" for fs x
    using fold_commutes [of "cleanup_file E" "\<lambda>s. s\<lparr>search_missing := b\<rparr>" fs x]
    by (simp add: sm_cleanup_file)
  then show ?thesis
    by (simp add: folder_cleanup_def sm_remove_empty_folders)
qed

lemma sm_process:
  "process E (s\<lparr>search_missing := b\<rparr>) = (process E s)\<lparr>search_missing := b\<rparr>"
  by (simp add: process_def sm_process_paused sm_process_errored sm_process_file_priority
        sm_process_imports sm_process_failed sm_folder_cleanup)

lemma sm_api_calls:
  "api_calls T (s\<lparr>search_missing := b\<rparr>)
     = apsnd (\<lambda>x. x\<lparr>search_missing := b\<rparr>) (api_calls T s)"
  by (simp add: api_calls_def emit_def Let_def split: option.splits)

lemma sm_refresh_download_queue:
  "refresh_download_queue T (s\<lparr>search_missing := b\<rparr>)
     = (refresh_download_queue T s)\<lparr>search_missing := b\<rparr>"
  by (cases "arr_type s") (simp_all add: refresh_download_queue_def)

lemma sm_note_torrent:
  "note_torrent g t (s\<lparr>search_missing := b\<rparr>) = (note_torrent g t s)\<lparr>search_missing := b\<rparr>"
  by (simp add: note_torrent_def Let_def)

lemma sm_marked: "marked (s\<lparr>search_missing := b\<rparr>) f = marked s f"
  by (simp add: marked_def)

lemma marked_intents:
  "marked (s\<lparr>delete := d\<rparr>) f = marked s f"
  "marked (s\<lparr>change_priority := c\<rparr>) f = marked s f"
  by (simp_all add: marked_def)

lemma sm_parse_files:
  "parse_files h fs rm n (s\<lparr>search_missing := b\<rparr>)
     = (parse_files h fs rm n s)\<lparr>search_missing := b\<rparr>"
  by (induction fs arbitrary: rm n s) (simp_all add: Let_def sm_marked sm_out)

lemma sm_target:
  "target_sent_to_scan_hashes (s\<lparr>search_missing := b\<rparr>) c = target_sent_to_scan_hashes s c"
  by (simp add: target_sent_to_scan_hashes_def)

lemma sm_classify:
  "classify g tn t (s\<lparr>search_missing := b\<rparr>)
     = apsnd (\<lambda>x. x\<lparr>search_missing := b\<rparr>) (classify g tn t s)"
proof (cases "target_sent_to_scan_hashes (note_torrent g t s) (category t)")
  case None
  then show ?thesis
    by (simp add: classify_def Let_def sm_note_torrent sm_target sm_parse_files sm_out
          if_distrib [of "apsnd (\<lambda>x. x\<lparr>search_missing := b\<rparr>)"]
          split del: if_split cong del: if_weak_cong)
next
  case (Some sent)
  then show ?thesis
    by (simp add: classify_def Let_def sm_note_torrent sm_target sm_parse_files sm_out
          if_distrib [of "apsnd (\<lambda>x. x\<lparr>search_missing := b\<rparr>)"]
          split del: if_split cong del: if_weak_cong)
qed

lemma sm_classify_all:
  "classify_all g tn ts (s\<lparr>search_missing := b\<rparr>)
     = apsnd (\<lambda>x. x\<lparr>search_missing := b\<rparr>) (classify_all g tn ts s)"
proof (induction ts arbitrary: s)
  case Nil
  show ?case by simp
next
  case (Cons t ts)
  show ?case
  proof (cases "classify g tn t s")
    case (Pair r s')
    then show ?thesis
      using Cons.IH [of s'] by (cases r) (simp_all add: sm_classify)
  qed
qed

lemma sm_process_torrents:
  "process_torrents g E T (s\<lparr>search_missing := b\<rparr>)
     = apsnd (\<lambda>x. x\<lparr>search_missing := b\<rparr>) (process_torrents g E T s)"
proof (cases "api_calls T s")
  case a: (Pair r s1)
  show ?thesis
  proof (cases "classify_all g (time_now T) (torrents T) (refresh_download_queue T s1)")
    case c: (Pair r2 s2)
    show ?thesis
      using a c
      by (cases r; cases r2)
         (simp_all add: process_torrents_def sm_api_calls sm_refresh_download_queue
            sm_classify_all sm_process emit_def sm_out)
  qed
qed

text \<open>
  C9. For a reconciler told to search, whose search is not yet set up: when the
  manager's catalog file does not exist, \<open>register_search_mode\<close> sets \<open>search_missing\<close>
  to false and changes nothing else; \<open>run_search_loop\<close> then returns at once with that
  state, whatever the passes of its loop would have met, so that no search command is
  issued and the local store is not touched. A tick of the torrent loop gives the same
  result and the same state as with search on, but for the flag, and the torrent
  worker is among the workers the reconciler starts.
\<close>

theorem missing_catalog_disables_search:
  assumes "search_missing s" and "\<not> search_setup_completed s"
  shows "register_search_mode False s = s\<lparr>search_missing := False\<rparr>
     \<and> run_search_loop False now_year Ps s = Some (s\<lparr>search_missing := False\<rparr>)
     \<and> process_torrents g E T (s\<lparr>search_missing := False\<rparr>)
         = apsnd (\<lambda>x. x\<lparr>search_missing := False\<rparr>) (process_torrents g E T s)
     \<and> TorrentLoop \<in> set (spawn_child_processes (s\<lparr>search_missing := False\<rparr>))"
proof -
  have r: "register_search_mode False s = s\<lparr>search_missing := False\<rparr>"
    using assms by (simp add: register_search_mode_def)
  have l: "run_search_loop False now_year Ps s = Some (s\<lparr>search_missing := False\<rparr>)"
    by (simp add: run_search_loop_def r Let_def)
  show ?thesis
    using r l by (simp add: sm_process_torrents spawn_child_processes_def)
qed

theorem missing_catalog_disables_search_witness:
  "run_search_loop False 2026 [one_candidate] searching_arr = Some (new_arr ''tv'' Sonarr)
   \<and> events (new_arr ''tv'' Sonarr) = [] \<and> queue_table (new_arr ''tv'' Sonarr) = []
   \<and> fst (process_torrents plain_globals quiet_env paused_tick (new_arr ''tv'' Sonarr))
       = fst (process_torrents plain_globals quiet_env paused_tick searching_arr)"
proof -
  have a: "search_missing searching_arr" "\<not> search_setup_completed searching_arr"
    by (simp_all add: searching_arr_def new_arr_def)
  have b: "searching_arr\<lparr>search_missing := False\<rparr> = new_arr ''tv'' Sonarr"
    by (simp add: searching_arr_def new_arr_def)
  show ?thesis
    using missing_catalog_disables_search [OF a, of 2026 "[one_candidate]" plain_globals
        quiet_env paused_tick]
    by (simp add: b new_arr_def)
qed

subsection \<open>The year of the search\<close>












subsection \<open>Configuration errors at startup\<close>










end
